theory Spec2Isabelle
  imports Complex_Main "HOL-Library.Char_ord" "HOL-Library.List_Lexorder"
    "HOL-Library.Product_Lexorder" "HOL-Library.Multiset"
begin

section \<open>Errors\<close>

text \<open>
  \<open>TypeError\<close> is the exception the JavaScript runtime raises when a property is read
  from \<open>null\<close> or \<open>undefined\<close>. The other three are the error kinds the specification
  names; no source file declares or raises them.
\<close>

datatype error = TypeError | MalformedMetadataError | DuplicateRouteError | ConfigurationError

section \<open>The layout component (src/components/layout.js)\<close>

text \<open>
  A React element tree. \<open>Element tag to css children\<close> is an element of type \<open>tag\<close>
  (\<open>div\<close>, \<open>h3\<close> or Gatsby's \<open>Link\<close>) with its \<open>to\<close> prop, the declarations of its
  \<open>css\<close> prop (one pair per declaration of the template literal) and its children.
  \<open>Nothing\<close> is a \<open>null\<close> or \<open>undefined\<close> child, which React does not render;
  \<open>Nodes\<close> is an array of children.
\<close>

datatype node =
    Text string
  | Nothing
  | Nodes "node list"
  | Element string "string option" "(string \<times> string) list" "node list"

text \<open>
  The result of the query \<open>site { siteMetadata { title } }\<close>. Every level of a GraphQL
  result is nullable.
\<close>

datatype siteMetadata = SiteMetadata "string option"
datatype site = Site "siteMetadata option"
datatype data = Data "site option"

text \<open>The member access \<open>data.site.siteMetadata.title\<close>.\<close>

fun data_site_siteMetadata_title :: "data \<Rightarrow> error + string option" where
  "data_site_siteMetadata_title (Data None) = Inl TypeError"
| "data_site_siteMetadata_title (Data (Some (Site None))) = Inl TypeError"
| "data_site_siteMetadata_title (Data (Some (Site (Some (SiteMetadata t))))) = Inr t"

text \<open>
  The \<open>render\<close> prop handed to \<open>StaticQuery\<close>. \<open>rhythm\<close> is imported from
  \<open>../utils/typography\<close> and is a parameter here; \<open>children\<close> is the prop of the
  enclosing component.
\<close>

definition render :: "(rat \<Rightarrow> string) \<Rightarrow> node \<Rightarrow> data \<Rightarrow> error + node" where
  "render rhythm children data =
     (case data_site_siteMetadata_title data of
        Inl e \<Rightarrow> Inl e
      | Inr t \<Rightarrow>
          Inr (Element ''div'' None
                 [(''margin'', ''0 auto''), (''max-width'', ''1240px''),
                  (''padding'', rhythm 2), (''padding-top'', rhythm (3 / 2))]
                 [Element ''Link'' (Some ''/'') []
                    [Element ''h3'' None
                       [(''margin-bottom'', rhythm 2), (''display'', ''inline-block''),
                        (''font-style'', ''normal'')]
                       [case t of None \<Rightarrow> Nothing | Some s \<Rightarrow> Text s]],
                  Element ''Link'' (Some ''/about/'') [(''float'', ''right'')] [Text ''About''],
                  children]))"

text \<open>
  The default export. \<open>StaticQuery\<close> is Gatsby's: it evaluates the query and applies
  \<open>render\<close> to the result, which is the parameter \<open>data\<close>.
\<close>

definition Layout :: "(rat \<Rightarrow> string) \<Rightarrow> data \<Rightarrow> node \<Rightarrow> error + node" where
  "Layout rhythm data children = render rhythm children data"

text \<open>Reading an element tree.\<close>

fun child_nodes :: "node \<Rightarrow> node list" where
  "child_nodes (Element tag to css cs) = cs"
| "child_nodes (Nodes cs) = cs"
| "child_nodes n = []"

fun tag_of :: "node \<Rightarrow> string option" where
  "tag_of (Element tag to css cs) = Some tag"
| "tag_of n = None"

fun link_to :: "node \<Rightarrow> string option" where
  "link_to (Element tag to css cs) = (if tag = ''Link'' then to else None)"
| "link_to n = None"

fun inner_text :: "node \<Rightarrow> string" where
  "inner_text (Text s) = s"
| "inner_text Nothing = []"
| "inner_text (Nodes cs) = concat (map inner_text cs)"
| "inner_text (Element tag to css cs) = concat (map inner_text cs)"

section \<open>The site configuration (gatsby-config.js)\<close>

text \<open>The plugins are listed by name; their options play no part below.\<close>

record gatsby_config =
  siteMetadata :: "(string \<times> string) list"
  plugins :: "string list"

definition module_exports :: gatsby_config where
  "module_exports =
     \<lparr>siteMetadata = [(''title'', ''Writing Idiomatic Python'')],
      plugins = [''gatsby-source-filesystem'', ''gatsby-transformer-remark'',
                 ''gatsby-plugin-emotion'', ''gatsby-plugin-typography'']\<rparr>"

section \<open>The content store (src/pages/*.md)\<close>

text \<open>
  The front-matter of a content file, and a document: the front-matter with the Markdown
  body that follows it.
\<close>

record frontmatter =
  title :: string
  date :: string
  order :: int

record document = frontmatter +
  body :: string

definition with_body :: "frontmatter \<Rightarrow> string \<Rightarrow> document" where
  "with_body fm b = \<lparr>title = title fm, date = date fm, order = order fm, body = b\<rparr>"

text \<open>
  The source carries four content documents. Two open the files
  control-structures-and-functions.md and general-advice.md; the other two follow a
  document separator inside those files, as gatsby-config.js follows one in layout.js.
  For each, the front-matter and the text of its five lines.
\<close>

text \<open>src/pages/control-structures-and-functions.md, lines 1 to 5.\<close>

definition control_structures_and_functions :: frontmatter where
  "control_structures_and_functions =
     \<lparr>title = ''Control Structures and Functions'', date = ''2019-02-06'', order = 1\<rparr>"

definition control_structures_and_functions_md :: string where
  \<open>control_structures_and_functions_md =
     ''---\<newline>title: "Control Structures and Functions"\<newline>date: "2019-02-06"\<newline>order: 1\<newline>---\<newline>''\<close>

text \<open>The document after the separator in control-structures-and-functions.md, lines 470 to 474.\<close>

definition working_with_data :: frontmatter where
  "working_with_data = \<lparr>title = ''Working with Data'', date = ''2019-02-06'', order = 2\<rparr>"

definition working_with_data_md :: string where
  \<open>working_with_data_md =
     ''---\<newline>title: "Working with Data"\<newline>date: "2019-02-06"\<newline>order: 2\<newline>---\<newline>''\<close>

text \<open>src/pages/general-advice.md, lines 1 to 5.\<close>

definition general_advice :: frontmatter where
  "general_advice = \<lparr>title = ''General Advice'', date = ''2019-02-09'', order = 4\<rparr>"

definition general_advice_md :: string where
  \<open>general_advice_md =
     ''---\<newline>title: "General Advice"\<newline>date: "2019-02-09"\<newline>order: 4\<newline>---\<newline>''\<close>

text \<open>The document after the first separator in general-advice.md, lines 102 to 106.\<close>

definition organizing_your_code :: frontmatter where
  "organizing_your_code =
     \<lparr>title = ''Organizing Your Code'', date = ''2019-02-09'', order = 3\<rparr>"

definition organizing_your_code_md :: string where
  \<open>organizing_your_code_md =
     ''---\<newline>title: "Organizing Your Code"\<newline>date: "2019-02-09"\<newline>order: 3\<newline>---\<newline>''\<close>

text \<open>All content documents, in the order the source carries them, and their opening lines.\<close>

definition pages_dir :: "frontmatter list" where
  "pages_dir =
     [control_structures_and_functions, working_with_data, general_advice,
      organizing_your_code]"

definition pages_md :: "string list" where
  "pages_md =
     [control_structures_and_functions_md, working_with_data_md, general_advice_md,
      organizing_your_code_md]"

section \<open>Calendar dates\<close>

text \<open>
  Decimal numerals and calendar dates in the ISO format \<open>YYYY-MM-DD\<close>, as the
  \<open>date\<close> key of the content files is written.
\<close>

definition digits :: string where
  "digits = ''0123456789''"

definition digit_of :: "char \<Rightarrow> nat" where
  "digit_of c = length (takeWhile (\<lambda>d. d \<noteq> c) digits)"

definition parse_nat :: "string \<Rightarrow> nat option" where
  "parse_nat s =
     (if s \<noteq> [] \<and> list_all (\<lambda>c. c \<in> set digits) s
      then Some (foldl (\<lambda>a c. 10 * a + digit_of c) 0 s) else None)"

definition leap_year :: "nat \<Rightarrow> bool" where
  "leap_year y = (y mod 4 = 0 \<and> (y mod 400 = 0 \<or> y mod 100 \<noteq> 0))"

definition days_in_month :: "nat \<Rightarrow> nat \<Rightarrow> nat" where
  "days_in_month y m =
     (if m = 2 then (if leap_year y then 29 else 28)
      else if m = 4 \<or> m = 6 \<or> m = 9 \<or> m = 11 then 30 else 31)"

fun valid_date :: "string \<Rightarrow> bool" where
  "valid_date [y1, y2, y3, y4, s1, m1, m2, s2, d1, d2] =
     (case (parse_nat [y1, y2, y3, y4], parse_nat [m1, m2], parse_nat [d1, d2]) of
        (Some y, Some m, Some d) \<Rightarrow>
          s1 = CHR ''-'' \<and> s2 = CHR ''-'' \<and> 1 \<le> m \<and> m \<le> 12 \<and> 1 \<le> d \<and> d \<le> days_in_month y m
      | _ \<Rightarrow> False)"
| "valid_date s = False"

section \<open>Front-matter blocks\<close>

text \<open>
  The format of the block that opens each content file (lines 1 to 5 of the files under
  src/pages, section 6 of the specification): a line \<open>---\<close>, lines \<open>key: value\<close>, a
  line \<open>---\<close>; what follows is the body. String values stand between double quotes,
  integers are decimal numerals.
\<close>

definition newline :: char where
  "newline = CHR 0x0A"

definition dquote :: char where
  "dquote = CHR 0x22"

fun split_on :: "char \<Rightarrow> string \<Rightarrow> string list" where
  "split_on c [] = [[]]"
| "split_on c (x # xs) =
     (if x = c then [] # split_on c xs
      else (case split_on c xs of [] \<Rightarrow> [[x]] | l # ls \<Rightarrow> (x # l) # ls))"

fun join_on :: "char \<Rightarrow> string list \<Rightarrow> string" where
  "join_on c [] = []"
| "join_on c [l] = l"
| "join_on c (l # ls) = l @ c # join_on c ls"

definition front_matter_block :: "string \<Rightarrow> (string list \<times> string) option" where
  "front_matter_block raw =
     (case split_on newline raw of
        [] \<Rightarrow> None
      | opening # rest \<Rightarrow>
          if opening \<noteq> ''---'' then None
          else (case dropWhile (\<lambda>l. l \<noteq> ''---'') rest of
                  [] \<Rightarrow> None
                | closing # body_lines \<Rightarrow>
                    Some (takeWhile (\<lambda>l. l \<noteq> ''---'') rest, join_on newline body_lines)))"

definition key_value :: "string \<Rightarrow> (string \<times> string) option" where
  "key_value l =
     (case dropWhile (\<lambda>c. c \<noteq> CHR '':'') l of
        c1 # c2 # v \<Rightarrow>
          if c2 = CHR '' '' then Some (takeWhile (\<lambda>c. c \<noteq> CHR '':'') l, v) else None
      | _ \<Rightarrow> None)"

definition metadata_pairs :: "string \<Rightarrow> ((string \<times> string) list \<times> string) option" where
  "metadata_pairs raw =
     (case front_matter_block raw of
        None \<Rightarrow> None
      | Some (block, b) \<Rightarrow>
          (case those (map key_value block) of
             None \<Rightarrow> None
           | Some kvs \<Rightarrow> Some (kvs, b)))"

definition quote :: "string \<Rightarrow> string" where
  "quote s = dquote # s @ [dquote]"

definition unquote :: "string \<Rightarrow> string option" where
  "unquote v =
     (case v of
        [] \<Rightarrow> None
      | c # r \<Rightarrow> if c = dquote \<and> r \<noteq> [] \<and> last r = dquote then Some (butlast r) else None)"

definition parse_int :: "string \<Rightarrow> int option" where
  "parse_int s =
     (case s of
        [] \<Rightarrow> None
      | c # r \<Rightarrow> if c = CHR ''-'' then map_option (\<lambda>n. - int n) (parse_nat r)
                 else map_option int (parse_nat s))"

fun show_nat :: "nat \<Rightarrow> string" where
  "show_nat n =
     (if n < 10 then [digits ! n] else show_nat (n div 10) @ [digits ! (n mod 10)])"

declare show_nat.simps [simp del]

definition show_int :: "int \<Rightarrow> string" where
  "show_int i = (if i < 0 then CHR ''-'' # show_nat (nat (- i)) else show_nat (nat i))"

section \<open>The front-matter parser\<close>

text \<open>
  Modelled from the spec: the Front-Matter Parser (4.1) is not among the source files (the
  configuration only names the plugin \<open>gatsby-transformer-remark\<close>). It splits the raw
  text into the metadata block and the body, reads the block as the key-value pairs title,
  date and order, and fails with \<open>MalformedMetadataError\<close> if a required key is missing
  or the date is unparsable.
\<close>

definition parse_front_matter :: "string \<Rightarrow> error + document" where
  "parse_front_matter raw =
     (case metadata_pairs raw of
        None \<Rightarrow> Inl MalformedMetadataError
      | Some (kvs, b) \<Rightarrow>
          (case (Option.bind (map_of kvs ''title'') unquote,
                 Option.bind (map_of kvs ''date'') unquote,
                 Option.bind (map_of kvs ''order'') parse_int) of
             (Some t, Some d, Some n) \<Rightarrow>
               if valid_date d then Inr \<lparr>title = t, date = d, order = n, body = b\<rparr>
               else Inl MalformedMetadataError
           | _ \<Rightarrow> Inl MalformedMetadataError))"

text \<open>Modelled from the spec: the front-matter block of section 6, followed by the body.\<close>

definition serialize :: "document \<Rightarrow> string" where
  "serialize d =
     ''---'' @ newline # ''title: '' @ quote (title d) @ newline #
     ''date: '' @ quote (date d) @ newline #
     ''order: '' @ show_int (order d) @ newline # ''---'' @ newline # body d"

text \<open>The two ways a document's front-matter is malformed that the specification names.\<close>

definition missing_key :: "string \<Rightarrow> string \<Rightarrow> bool" where
  "missing_key k raw =
     (case metadata_pairs raw of None \<Rightarrow> True | Some (kvs, b) \<Rightarrow> map_of kvs k = None)"

definition unparsable_date :: "string \<Rightarrow> bool" where
  "unparsable_date raw =
     (case metadata_pairs raw of
        None \<Rightarrow> False
      | Some (kvs, b) \<Rightarrow>
          (case map_of kvs ''date'' of
             None \<Rightarrow> False
           | Some v \<Rightarrow> (case unquote v of None \<Rightarrow> True | Some d \<Rightarrow> \<not> valid_date d)))"

section \<open>The page resolver\<close>

text \<open>
  Modelled from the spec: the Page Resolver (4.2) is not among the source files. Given the
  parsed documents it fails with \<open>DuplicateRouteError\<close> if two of them resolve to the
  same route, and otherwise returns their pages sorted ascending by \<open>order\<close>, ties
  broken by title. The derivation of the route is left open by the specification and is
  the parameter \<open>slug\<close>. The Markdown renderer is an external collaborator (section 1):
  a page keeps the document whose body it renders.
\<close>

record page =
  route :: string
  source :: document

definition sort_key_of :: "document \<Rightarrow> int \<times> string" where
  "sort_key_of d = (order d, title d)"

definition resolve :: "(document \<Rightarrow> string) \<Rightarrow> document list \<Rightarrow> error + page list" where
  "resolve slug ds =
     (if distinct (map slug ds)
      then Inr (map (\<lambda>d. \<lparr>route = slug d, source = d\<rparr>) (sort_key sort_key_of ds))
      else Inl DuplicateRouteError)"

section \<open>The site renderer\<close>

text \<open>
  Modelled from the spec: the Site Renderer (2, 5, 7) is not among the source files. It
  parses every file, reports each file whose parse fails together with the error, skips
  that file, and resolves the documents that remain.
\<close>

record build =
  reports :: "(string \<times> error) list"
  pages :: "error + page list"

fun parse_all :: "(string \<times> string) list \<Rightarrow> (string \<times> error) list \<times> document list" where
  "parse_all [] = ([], [])"
| "parse_all ((name, raw) # fs) =
     (case parse_all fs of
        (es, ds) \<Rightarrow>
          (case parse_front_matter raw of
             Inl e \<Rightarrow> ((name, e) # es, ds)
           | Inr d \<Rightarrow> (es, d # ds)))"

definition render_site :: "(document \<Rightarrow> string) \<Rightarrow> (string \<times> string) list \<Rightarrow> build" where
  "render_site slug fs =
     (case parse_all fs of (es, ds) \<Rightarrow> \<lparr>reports = es, pages = resolve slug ds\<rparr>)"

section \<open>Lemmas\<close>

subsection \<open>The layout\<close>

lemma render_present:
  "render rhythm children (Data (Some (Site (Some (SiteMetadata t))))) =
     Inr (Element ''div'' None
            [(''margin'', ''0 auto''), (''max-width'', ''1240px''),
             (''padding'', rhythm 2), (''padding-top'', rhythm (3 / 2))]
            [Element ''Link'' (Some ''/'') []
               [Element ''h3'' None
                  [(''margin-bottom'', rhythm 2), (''display'', ''inline-block''),
                   (''font-style'', ''normal'')]
                  [case t of None \<Rightarrow> Nothing | Some s \<Rightarrow> Text s]],
             Element ''Link'' (Some ''/about/'') [(''float'', ''right'')] [Text ''About''],
             children])"
  by (simp add: render_def)

text \<open>
  C3. For every page body \<open>children\<close> and every site title \<open>t\<close>, the layout succeeds and
  its output is one wrapper element with exactly three children: a header whose text is
  the site title and which links home, a navigation link whose text is \<open>About\<close>, and the
  body itself, unmodified.
\<close>

subsection \<open>Lines\<close>

lemma split_on_nonempty: "split_on c s \<noteq> []"
  by (induction s) (auto split: list.splits)

lemma join_on_Cons: "ls \<noteq> [] \<Longrightarrow> join_on c (l # ls) = l @ c # join_on c ls"
  by (cases ls) auto

lemma join_on_Cons_Cons: "join_on c ((x # l) # ls) = x # join_on c (l # ls)"
  by (cases ls) auto

lemma join_split: "join_on c (split_on c s) = s"
proof (induction s)
  case Nil
  show ?case by simp
next
  case (Cons x xs)
  show ?case
  proof (cases "x = c")
    case True
    then show ?thesis using Cons by (simp add: join_on_Cons split_on_nonempty)
  next
    case False
    obtain l ls where sp: "split_on c xs = l # ls"
      using split_on_nonempty [of c xs] by (cases "split_on c xs") auto
    with False Cons show ?thesis by (simp add: join_on_Cons_Cons)
  qed
qed

lemma split_on_append: "c \<notin> set l \<Longrightarrow> split_on c (l @ c # r) = l # split_on c r"
  by (induction l) auto

lemma split_on_lines: "l \<in> set (split_on c s) \<Longrightarrow> c \<notin> set l"
proof (induction s arbitrary: l)
  case Nil
  then show ?case by simp
next
  case (Cons x xs)
  obtain k ks where sp: "split_on c xs = k # ks"
    using split_on_nonempty [of c xs] by (cases "split_on c xs") auto
  have k: "c \<notin> set k" and ks: "\<And>j. j \<in> set ks \<Longrightarrow> c \<notin> set j"
    using Cons.IH sp by auto
  show ?case
  proof (cases "x = c")
    case True
    with Cons.prems sp k ks show ?thesis by auto
  next
    case False
    with Cons.prems sp k ks show ?thesis by auto
  qed
qed

subsection \<open>Numerals\<close>

lemma digit_index: "k < 10 \<Longrightarrow> digits ! k \<in> set digits \<and> digit_of (digits ! k) = k"
proof -
  assume "k < 10"
  then have "k = 0 \<or> k = 1 \<or> k = 2 \<or> k = 3 \<or> k = 4 \<or> k = 5 \<or> k = 6 \<or> k = 7 \<or> k = 8 \<or> k = 9"
    by arith
  then show ?thesis
    by (elim disjE) (simp_all add: digits_def digit_of_def)
qed

lemma show_nat_digits: "list_all (\<lambda>c. c \<in> set digits) (show_nat n) \<and> show_nat n \<noteq> []"
proof (induction n rule: show_nat.induct)
  case (1 n)
  show ?case
  proof (cases "n < 10")
    case True
    then show ?thesis by (subst (1 2) show_nat.simps) (simp add: digit_index)
  next
    case False
    then have "n mod 10 < 10" by simp
    with False 1 show ?thesis by (subst (1 2) show_nat.simps) (simp add: digit_index)
  qed
qed

lemma show_nat_value: "foldl (\<lambda>a c. 10 * a + digit_of c) 0 (show_nat n) = n"
proof (induction n rule: show_nat.induct)
  case (1 n)
  show ?case
  proof (cases "n < 10")
    case True
    then show ?thesis by (subst show_nat.simps) (simp add: digit_index)
  next
    case False
    have "n mod 10 < 10" by simp
    with False 1 show ?thesis by (subst show_nat.simps) (simp add: digit_index)
  qed
qed

lemma parse_show_nat: "parse_nat (show_nat n) = Some n"
  using show_nat_digits [of n] show_nat_value [of n] by (simp add: parse_nat_def)

lemma show_nat_no_minus: "show_nat n = c # r \<Longrightarrow> c \<noteq> CHR ''-''"
proof -
  assume cr: "show_nat n = c # r"
  have "\<forall>c\<in>set (show_nat n). c \<in> set digits"
    using show_nat_digits [of n] by (simp add: list_all_iff)
  with cr have "c \<in> set digits" by simp
  then show ?thesis by (auto simp: digits_def)
qed

lemma parse_show_int: "parse_int (show_int i) = Some i"
proof (cases "i < 0")
  case True
  then show ?thesis by (simp add: parse_int_def show_int_def parse_show_nat)
next
  case False
  obtain c r where cr: "show_nat (nat i) = c # r"
    using show_nat_digits [of "nat i"] by (cases "show_nat (nat i)") auto
  then have "c \<noteq> CHR ''-''" by (rule show_nat_no_minus)
  moreover have "parse_nat (c # r) = Some (nat i)" using parse_show_nat [of "nat i"] cr by simp
  ultimately show ?thesis using False cr by (simp add: parse_int_def show_int_def)
qed

lemma digits_chars: "newline \<notin> set digits" "CHR ''-'' \<notin> set digits"
  by (simp_all add: digits_def newline_def)

lemma show_nat_no_newline: "newline \<notin> set (show_nat n)"
proof -
  have "\<forall>c\<in>set (show_nat n). c \<in> set digits"
    using show_nat_digits [of n] by (simp add: list_all_iff)
  then show ?thesis using digits_chars(1) by blast
qed

lemma show_int_no_newline: "newline \<notin> set (show_int i)"
  by (simp add: show_int_def show_nat_no_newline) (simp add: newline_def)

subsection \<open>Parsing and serializing\<close>

lemma unquote_quote: "unquote (quote s) = Some s"
  by (simp add: unquote_def quote_def)

lemma quote_no_newline: "newline \<notin> set s \<Longrightarrow> newline \<notin> set (quote s)"
  by (simp add: quote_def newline_def dquote_def)

lemma those_member: "those xs = Some ys \<Longrightarrow> y \<in> set ys \<Longrightarrow> Some y \<in> set xs"
  by (induction xs arbitrary: ys) (auto split: option.splits)

lemma block_lines:
  assumes "front_matter_block raw = Some (block, b)" and "l \<in> set block"
  shows "newline \<notin> set l"
proof -
  from assms(1) obtain l0 rest where sp: "split_on newline raw = l0 # rest"
    and blk: "block = takeWhile (\<lambda>l. l \<noteq> ''---'') rest"
    by (auto simp: front_matter_block_def split: list.splits if_splits)
  from assms(2) blk have "l \<in> set rest" by (auto dest: set_takeWhileD)
  with sp have "l \<in> set (split_on newline raw)" by simp
  then show ?thesis by (rule split_on_lines)
qed

lemma key_value_suffix: "key_value l = Some (k, v) \<Longrightarrow> set v \<subseteq> set l"
proof -
  assume kv: "key_value l = Some (k, v)"
  then obtain c1 c2 where "dropWhile (\<lambda>c. c \<noteq> CHR '':'') l = c1 # c2 # v"
    by (auto simp: key_value_def split: list.splits if_splits)
  then have "set v \<subseteq> set (dropWhile (\<lambda>c. c \<noteq> CHR '':'') l)" by auto
  also have "\<dots> \<subseteq> set l" by (auto dest: set_dropWhileD)
  finally show ?thesis .
qed

lemma value_no_newline:
  assumes "metadata_pairs raw = Some (kvs, b)" and "map_of kvs k = Some v"
  shows "newline \<notin> set v"
proof -
  from assms(1) obtain block where blk: "front_matter_block raw = Some (block, b)"
    and th: "those (map key_value block) = Some kvs"
    by (auto simp: metadata_pairs_def split: option.splits)
  from assms(2) have "(k, v) \<in> set kvs" by (rule map_of_SomeD)
  with th have "Some (k, v) \<in> set (map key_value block)" by (rule those_member)
  then obtain l where l: "l \<in> set block" and kv: "key_value l = Some (k, v)" by auto
  from blk l have "newline \<notin> set l" by (rule block_lines)
  with key_value_suffix [OF kv] show ?thesis by auto
qed

lemma unquote_subset: "unquote v = Some t \<Longrightarrow> set t \<subseteq> set v"
  by (auto simp: unquote_def split: list.splits if_splits dest: in_set_butlastD)

lemma parse_front_matter_Inr:
  assumes "parse_front_matter raw = Inr d"
  shows "\<exists>kvs tv dv nv. metadata_pairs raw = Some (kvs, body d)
     \<and> map_of kvs ''title'' = Some tv \<and> unquote tv = Some (title d)
     \<and> map_of kvs ''date'' = Some dv \<and> unquote dv = Some (date d)
     \<and> map_of kvs ''order'' = Some nv \<and> parse_int nv = Some (order d)
     \<and> valid_date (date d)"
  using assms
  by (auto simp: parse_front_matter_def Option.bind_eq_Some_conv
      split: option.splits if_splits prod.splits)

lemma parsed_fields:
  assumes "parse_front_matter raw = Inr d"
  shows "newline \<notin> set (title d)" and "newline \<notin> set (date d)" and "valid_date (date d)"
proof -
  from parse_front_matter_Inr [OF assms] obtain kvs tv dv where
    mp: "metadata_pairs raw = Some (kvs, body d)"
    and t: "map_of kvs ''title'' = Some tv" "unquote tv = Some (title d)"
    and dt: "map_of kvs ''date'' = Some dv" "unquote dv = Some (date d)"
    and v: "valid_date (date d)"
    by blast
  from value_no_newline [OF mp t(1)] unquote_subset [OF t(2)]
  show "newline \<notin> set (title d)" by auto
  from value_no_newline [OF mp dt(1)] unquote_subset [OF dt(2)]
  show "newline \<notin> set (date d)" by auto
  from v show "valid_date (date d)" .
qed

lemma serialize_lines:
  assumes "newline \<notin> set (title d)" and "newline \<notin> set (date d)"
  shows "split_on newline (serialize d) =
    [''---'', ''title: '' @ quote (title d), ''date: '' @ quote (date d),
     ''order: '' @ show_int (order d), ''---''] @ split_on newline (body d)"
proof -
  let ?l2 = "''title: '' @ quote (title d)"
  let ?l3 = "''date: '' @ quote (date d)"
  let ?l4 = "''order: '' @ show_int (order d)"
  let ?r5 = "''---'' @ newline # body d"
  let ?r4 = "?l4 @ newline # ?r5"
  let ?r3 = "?l3 @ newline # ?r4"
  let ?r2 = "?l2 @ newline # ?r3"
  have n1: "newline \<notin> set ''---''" by (simp add: newline_def)
  have n2: "newline \<notin> set ?l2"
    using quote_no_newline [OF assms(1)] by (simp add: newline_def)
  have n3: "newline \<notin> set ?l3"
    using quote_no_newline [OF assms(2)] by (simp add: newline_def)
  have n4: "newline \<notin> set ?l4"
    using show_int_no_newline [of "order d"] by (simp add: newline_def)
  have "serialize d = ''---'' @ newline # ?r2" by (simp add: serialize_def)
  then have "split_on newline (serialize d) = ''---'' # split_on newline ?r2"
    by (simp only: split_on_append [OF n1])
  also have "split_on newline ?r2 = ?l2 # split_on newline ?r3"
    by (rule split_on_append [OF n2])
  also have "split_on newline ?r3 = ?l3 # split_on newline ?r4"
    by (rule split_on_append [OF n3])
  also have "split_on newline ?r4 = ?l4 # split_on newline ?r5"
    by (rule split_on_append [OF n4])
  also have "split_on newline ?r5 = ''---'' # split_on newline (body d)"
    by (rule split_on_append [OF n1])
  finally show ?thesis by simp
qed

lemma metadata_pairs_serialize:
  assumes "newline \<notin> set (title d)" and "newline \<notin> set (date d)"
  shows "metadata_pairs (serialize d) =
    Some ([(''title'', quote (title d)), (''date'', quote (date d)),
           (''order'', show_int (order d))], body d)"
proof -
  have "front_matter_block (serialize d) =
      Some ([''title: '' @ quote (title d), ''date: '' @ quote (date d),
             ''order: '' @ show_int (order d)], body d)"
    by (simp add: front_matter_block_def serialize_lines [OF assms] join_split)
  then show ?thesis
    by (simp add: metadata_pairs_def key_value_def)
qed

lemma parse_serialize:
  assumes "newline \<notin> set (title d)" and "newline \<notin> set (date d)" and "valid_date (date d)"
  shows "parse_front_matter (serialize d) = Inr d"
  using assms(3)
  by (simp add: parse_front_matter_def metadata_pairs_serialize [OF assms(1,2)]
      unquote_quote parse_show_int)

subsection \<open>The content files\<close>

lemma content_pairs:
  "metadata_pairs (control_structures_and_functions_md @ rest) =
     Some ([(''title'', quote ''Control Structures and Functions''),
            (''date'', quote ''2019-02-06''), (''order'', ''1'')], rest)"
  "metadata_pairs (working_with_data_md @ rest) =
     Some ([(''title'', quote ''Working with Data''),
            (''date'', quote ''2019-02-06''), (''order'', ''2'')], rest)"
  "metadata_pairs (general_advice_md @ rest) =
     Some ([(''title'', quote ''General Advice''),
            (''date'', quote ''2019-02-09''), (''order'', ''4'')], rest)"
  "metadata_pairs (organizing_your_code_md @ rest) =
     Some ([(''title'', quote ''Organizing Your Code''),
            (''date'', quote ''2019-02-09''), (''order'', ''3'')], rest)"
  by (simp add: control_structures_and_functions_md_def working_with_data_md_def
      general_advice_md_def organizing_your_code_md_def metadata_pairs_def
      front_matter_block_def newline_def key_value_def quote_def dquote_def,
      simp add: join_split flip: newline_def)+

lemma content_dates: "valid_date ''2019-02-06''" "valid_date ''2019-02-09''"
  by code_simp+

lemma content_orders:
  "parse_int ''1'' = Some 1" "parse_int ''2'' = Some 2"
  "parse_int ''3'' = Some 3" "parse_int ''4'' = Some 4"
  "show_int 1 = ''1''" "show_int 2 = ''2''" "show_int 3 = ''3''" "show_int 4 = ''4''"
  by code_simp+

lemma content_parses:
  "parse_front_matter (control_structures_and_functions_md @ rest) = Inr (with_body control_structures_and_functions rest)"
  "parse_front_matter (working_with_data_md @ rest) = Inr (with_body working_with_data rest)"
  "parse_front_matter (general_advice_md @ rest) = Inr (with_body general_advice rest)"
  "parse_front_matter (organizing_your_code_md @ rest) = Inr (with_body organizing_your_code rest)"
  by (simp_all add: parse_front_matter_def content_pairs unquote_quote content_dates
      content_orders with_body_def control_structures_and_functions_def
      working_with_data_def general_advice_def organizing_your_code_def
      del: valid_date.simps)

subsection \<open>Failed parses and sort keys\<close>

lemma malformed_parse:
  assumes "missing_key ''title'' raw \<or> missing_key ''date'' raw \<or> missing_key ''order'' raw
           \<or> unparsable_date raw"
  shows "parse_front_matter raw = Inl MalformedMetadataError"
  using assms
  by (auto simp: missing_key_def unparsable_date_def parse_front_matter_def
      split: option.splits prod.splits)

lemma parse_all_append:
  "parse_all (fs @ gs) =
     (fst (parse_all fs) @ fst (parse_all gs), snd (parse_all fs) @ snd (parse_all gs))"
  by (induction fs) (auto split: prod.splits sum.splits)

lemma parse_all_failure:
  "parse_front_matter raw = Inl e \<Longrightarrow>
   parse_all ((name, raw) # gs) = ((name, e) # fst (parse_all gs), snd (parse_all gs))"
  by (simp split: prod.splits)

lemma key_le: "sort_key_of a \<le> sort_key_of b \<longleftrightarrow>
   order a < order b \<or> (order a = order b \<and> title a \<le> title b)"
  by (auto simp: sort_key_of_def)

section \<open>The claims\<close>

text \<open>
  C1. In every site with distinct routes, a document of \<open>order\<close> 1 and a document of
  \<open>order\<close> 4 come out of the resolver with the first before the second, whatever their
  titles and whatever other documents lie between them. In the content store the document
  of order 1 is Control Structures and Functions and the document of order 4 is General
  Advice.
\<close>

theorem control_structures_before_general_advice:
  assumes c: "c \<in> set ds" and g: "g \<in> set ds"
    and oc: "order c = 1" and og: "order g = 4"
    and r: "distinct (map slug ds)"
  shows "\<exists>ps xs ys zs. resolve slug ds = Inr ps \<and> map source ps = xs @ c # ys @ g # zs"
proof -
  let ?ss = "sort_key sort_key_of ds"
  let ?ps = "map (\<lambda>d. \<lparr>route = slug d, source = d\<rparr>) ?ss"
  have key: "sort_key_of c < sort_key_of g"
    using oc og by (simp add: sort_key_of_def)
  have srt: "sorted (map sort_key_of ?ss)" by simp
  from g have gs: "g \<in> set ?ss" by simp
  from split_list [OF gs] obtain us vs where sp: "?ss = us @ g # vs" by blast
  have "c \<notin> set vs"
  proof
    assume "c \<in> set vs"
    with srt sp have "sort_key_of g \<le> sort_key_of c" by (auto simp: sorted_append)
    with key show False by simp
  qed
  moreover from key have "c \<noteq> g" by auto
  moreover from c have "c \<in> set ?ss" by simp
  ultimately have cu: "c \<in> set us" using sp by auto
  from split_list [OF cu] obtain xs ys where us: "us = xs @ c # ys" by blast
  have "map source ?ps = ?ss" by (simp add: comp_def)
  with sp us have "map source ?ps = xs @ c # ys @ g # vs" by simp
  moreover have "resolve slug ds = Inr ?ps" using r by (simp add: resolve_def)
  ultimately show ?thesis by blast
qed

text \<open>
  The theorem above at the four documents of the content store, routed by title: Control
  Structures and Functions comes before General Advice.
\<close>

theorem control_structures_before_general_advice_witness:
  "with_body control_structures_and_functions ''### Contents'' \<in> set [with_body control_structures_and_functions ''### Contents'',
           with_body working_with_data ''### Contents'',
           with_body general_advice ''### Contents'',
           with_body organizing_your_code ''### Contents'']
   \<and> with_body general_advice ''### Contents'' \<in> set [with_body control_structures_and_functions ''### Contents'',
           with_body working_with_data ''### Contents'',
           with_body general_advice ''### Contents'',
           with_body organizing_your_code ''### Contents'']
   \<and> order (with_body control_structures_and_functions ''### Contents'') = 1
   \<and> order (with_body general_advice ''### Contents'') = 4
   \<and> distinct (map title [with_body control_structures_and_functions ''### Contents'',
           with_body working_with_data ''### Contents'',
           with_body general_advice ''### Contents'',
           with_body organizing_your_code ''### Contents''])
   \<and> (\<exists>ps xs ys zs. resolve title [with_body control_structures_and_functions ''### Contents'',
           with_body working_with_data ''### Contents'',
           with_body general_advice ''### Contents'',
           with_body organizing_your_code ''### Contents''] = Inr ps
       \<and> map source ps = xs @ with_body control_structures_and_functions ''### Contents''
                            # ys @ with_body general_advice ''### Contents'' # zs)"
proof -
  let ?ds = "[with_body control_structures_and_functions ''### Contents'',
           with_body working_with_data ''### Contents'',
           with_body general_advice ''### Contents'',
           with_body organizing_your_code ''### Contents'']"
  have c: "with_body control_structures_and_functions ''### Contents'' \<in> set ?ds" by simp
  have g: "with_body general_advice ''### Contents'' \<in> set ?ds" by simp
  have oc: "order (with_body control_structures_and_functions ''### Contents'') = 1"
    by (simp add: with_body_def control_structures_and_functions_def)
  have og: "order (with_body general_advice ''### Contents'') = 4"
    by (simp add: with_body_def general_advice_def)
  have r: "distinct (map title ?ds)"
    by (simp add: with_body_def general_advice_def control_structures_and_functions_def
        working_with_data_def organizing_your_code_def)
  from c g oc og r control_structures_before_general_advice [OF c g oc og r]
  show ?thesis by blast
qed

text \<open>
  C2. When no two documents share a route, the resolver returns a sequence of pages that is
  ascending in \<open>order\<close>, ascending in title among documents of equal \<open>order\<close>,
  holds every document exactly as often as the input does, and keeps documents of equal
  \<open>order\<close> and title in their input order (stability).
\<close>

theorem resolve_sorted:
  assumes "distinct (map slug ds)"
  shows "\<exists>ps. resolve slug ds = Inr ps
     \<and> sorted (map (\<lambda>p. order (source p)) ps)
     \<and> sorted_wrt (\<lambda>p q. order (source p) < order (source q)
            \<or> (order (source p) = order (source q) \<and> title (source p) \<le> title (source q))) ps
     \<and> mset (map source ps) = mset ds
     \<and> (\<forall>k. filter (\<lambda>d. sort_key_of d = k) (map source ps) = filter (\<lambda>d. sort_key_of d = k) ds)"
proof -
  let ?ss = "sort_key sort_key_of ds"
  let ?ps = "map (\<lambda>d. \<lparr>route = slug d, source = d\<rparr>) ?ss"
  have src: "map source ?ps = ?ss" by (simp add: comp_def)
  have r: "resolve slug ds = Inr ?ps" using assms by (simp add: resolve_def)
  have s: "sorted (map sort_key_of ?ss)" by simp
  then have lex: "sorted_wrt (\<lambda>a b. order a < order b \<or> (order a = order b \<and> title a \<le> title b)) ?ss"
    by (simp add: sorted_map key_le)
  then have lexp: "sorted_wrt (\<lambda>p q. order (source p) < order (source q)
            \<or> (order (source p) = order (source q) \<and> title (source p) \<le> title (source q))) ?ps"
    by (simp add: sorted_wrt_map)
  from lex have "sorted_wrt (\<lambda>a b. order a \<le> order b) ?ss"
    by (rule sorted_wrt_mono_rel[rotated]) auto
  then have ord: "sorted (map (\<lambda>p. order (source p)) ?ps)"
    by (simp add: sorted_map sorted_wrt_map)
  have m: "mset (map source ?ps) = mset ds" unfolding src by simp
  have st: "\<forall>k. filter (\<lambda>d. sort_key_of d = k) (map source ?ps) = filter (\<lambda>d. sort_key_of d = k) ds"
    by (simp only: src sort_key_stable) simp
  from r ord lexp m st show ?thesis by blast
qed

text \<open>The theorem above at three documents, two of them with \<open>order\<close> 1.\<close>

theorem resolve_sorted_witness:
  "distinct (map title
      [with_body general_advice ''g'', with_body control_structures_and_functions ''c'',
       \<lparr>title = ''Classes'', date = ''2019-02-07'', order = 1, body = ''k''\<rparr>])
   \<and> (\<exists>ps. resolve title
         [with_body general_advice ''g'', with_body control_structures_and_functions ''c'',
          \<lparr>title = ''Classes'', date = ''2019-02-07'', order = 1, body = ''k''\<rparr>] = Inr ps
     \<and> sorted (map (\<lambda>p. order (source p)) ps)
     \<and> sorted_wrt (\<lambda>p q. order (source p) < order (source q)
            \<or> (order (source p) = order (source q) \<and> title (source p) \<le> title (source q))) ps
     \<and> mset (map source ps) = mset
         [with_body general_advice ''g'', with_body control_structures_and_functions ''c'',
          \<lparr>title = ''Classes'', date = ''2019-02-07'', order = 1, body = ''k''\<rparr>]
     \<and> (\<forall>k. filter (\<lambda>d. sort_key_of d = k) (map source ps) = filter (\<lambda>d. sort_key_of d = k)
         [with_body general_advice ''g'', with_body control_structures_and_functions ''c'',
          \<lparr>title = ''Classes'', date = ''2019-02-07'', order = 1, body = ''k''\<rparr>]))"
proof -
  let ?ds = "[with_body general_advice ''g'', with_body control_structures_and_functions ''c'',
       \<lparr>title = ''Classes'', date = ''2019-02-07'', order = 1, body = ''k''\<rparr>]"
  have r: "distinct (map title ?ds)"
    by (simp add: with_body_def general_advice_def control_structures_and_functions_def)
  from r resolve_sorted [OF r] show ?thesis by (rule conjI)
qed

text \<open>
  C3. For every page body \<open>children\<close> and every site title \<open>t\<close>, the layout succeeds and
  its output is one wrapper element with exactly three children: a header whose text is
  the site title and which links home, a navigation link whose text is \<open>About\<close>, and the
  body itself, unmodified.
\<close>

theorem layout_wraps_body:
  "\<exists>attrs css header nav.
     Layout rhythm (Data (Some (Site (Some (SiteMetadata (Some t)))))) children
       = Inr (Element ''div'' attrs css [header, nav, children])
     \<and> inner_text header = t \<and> link_to header = Some ''/''
     \<and> tag_of nav = Some ''Link'' \<and> inner_text nav = ''About''"
  by (simp add: Layout_def render_present)



text \<open>
  C5. A document whose front-matter lacks one of the keys title, date and order, or whose
  date is unparsable, fails to parse with \<open>MalformedMetadataError\<close>; the site renderer
  reports the file with that error, and its pages are those of the site without the file.
\<close>

theorem malformed_document_reported:
  assumes "missing_key ''title'' raw \<or> missing_key ''date'' raw \<or> missing_key ''order'' raw
           \<or> unparsable_date raw"
  shows "parse_front_matter raw = Inl MalformedMetadataError
     \<and> reports (render_site slug (fs @ (name, raw) # gs)) =
         reports (render_site slug fs) @ (name, MalformedMetadataError) # reports (render_site slug gs)
     \<and> pages (render_site slug (fs @ (name, raw) # gs)) = pages (render_site slug (fs @ gs))"
proof -
  have p: "parse_front_matter raw = Inl MalformedMetadataError"
    using assms by (rule malformed_parse)
  have a: "parse_all (fs @ (name, raw) # gs) =
      (fst (parse_all fs) @ (name, MalformedMetadataError) # fst (parse_all gs),
       snd (parse_all fs) @ snd (parse_all gs))"
    by (simp only: parse_all_append [of fs "(name, raw) # gs"] parse_all_failure [OF p]) simp
  have r: "reports (render_site slug (fs @ (name, raw) # gs)) =
         reports (render_site slug fs) @ (name, MalformedMetadataError) # reports (render_site slug gs)"
    by (simp add: render_site_def a split: prod.splits)
  have q: "pages (render_site slug (fs @ (name, raw) # gs)) = pages (render_site slug (fs @ gs))"
    by (simp add: render_site_def a parse_all_append [of fs gs] split: prod.splits)
  from p r q show ?thesis by blast
qed

text \<open>The theorem above at a document without a \<open>date\<close>, next to general-advice.md.\<close>

theorem malformed_document_reported_witness:
  \<open>missing_key ''date'' ''---\<newline>title: "Draft"\<newline>order: 2\<newline>---\<newline>text''
   \<and> parse_front_matter ''---\<newline>title: "Draft"\<newline>order: 2\<newline>---\<newline>text''
       = Inl MalformedMetadataError
   \<and> reports (render_site title
         ([(''general-advice.md'', general_advice_md)]
          @ (''draft.md'', ''---\<newline>title: "Draft"\<newline>order: 2\<newline>---\<newline>text'') # [])) =
       reports (render_site title [(''general-advice.md'', general_advice_md)])
         @ (''draft.md'', MalformedMetadataError) # reports (render_site title [])
   \<and> pages (render_site title
         ([(''general-advice.md'', general_advice_md)]
          @ (''draft.md'', ''---\<newline>title: "Draft"\<newline>order: 2\<newline>---\<newline>text'') # [])) =
       pages (render_site title ([(''general-advice.md'', general_advice_md)] @ []))\<close>
proof -
  have h: \<open>missing_key ''date'' ''---\<newline>title: "Draft"\<newline>order: 2\<newline>---\<newline>text''\<close>
    by code_simp
  then have d: \<open>missing_key ''title'' ''---\<newline>title: "Draft"\<newline>order: 2\<newline>---\<newline>text''
      \<or> missing_key ''date'' ''---\<newline>title: "Draft"\<newline>order: 2\<newline>---\<newline>text''
      \<or> missing_key ''order'' ''---\<newline>title: "Draft"\<newline>order: 2\<newline>---\<newline>text''
      \<or> unparsable_date ''---\<newline>title: "Draft"\<newline>order: 2\<newline>---\<newline>text''\<close>
    by (intro disjI2 disjI1)
  from h malformed_document_reported [OF d, of title "[(''general-advice.md'', general_advice_md)]"
      "''draft.md''" "[]"]
  show ?thesis by (rule conjI)
qed

text \<open>
  C6. The four documents of the content store have pairwise different \<open>order\<close>
  values, and the \<open>date\<close> of each is a valid calendar date.
\<close>

theorem content_orders_unique_dates_valid:
  "distinct (map order pages_dir) \<and> list_all valid_date (map date pages_dir)"
  by code_simp

text \<open>
  C7. If a text parses to a document, serializing the document and parsing the result
  gives the same document again: the same title, date, order and body.
\<close>

theorem front_matter_round_trip:
  assumes "parse_front_matter raw = Inr d"
  shows "parse_front_matter (serialize d) = Inr d"
  using parsed_fields [OF assms] by (rule parse_serialize)

text \<open>The theorem above at general-advice.md with a one-line body.\<close>

theorem front_matter_round_trip_witness:
  "parse_front_matter (general_advice_md @ ''### Contents'') =
     Inr (with_body general_advice ''### Contents'')
   \<and> parse_front_matter (serialize (with_body general_advice ''### Contents'')) =
     Inr (with_body general_advice ''### Contents'')"
proof -
  have h: "parse_front_matter (general_advice_md @ ''### Contents'') =
     Inr (with_body general_advice ''### Contents'')"
    by code_simp
  from h front_matter_round_trip [OF h] show ?thesis by (rule conjI)
qed

text \<open>
  C8. Every content document starts with a front-matter block whose keys are exactly
  title, date and order: the title a quoted string, the date a quoted calendar date in ISO
  format, the order a decimal integer; whatever follows the block is the body. The site
  metadata of the configuration has the single key \<open>title\<close>.
\<close>

theorem content_front_matter:
  "map (\<lambda>md. metadata_pairs (md @ rest)) pages_md =
     map (\<lambda>fm. Some ([(''title'', quote (title fm)), (''date'', quote (date fm)),
                       (''order'', show_int (order fm))], rest)) pages_dir
   \<and> list_all valid_date (map date pages_dir)
   \<and> map fst (siteMetadata module_exports) = [''title'']"
proof -
  have p: "map (\<lambda>md. metadata_pairs (md @ rest)) pages_md =
     map (\<lambda>fm. Some ([(''title'', quote (title fm)), (''date'', quote (date fm)),
                       (''order'', show_int (order fm))], rest)) pages_dir"
    by (simp add: pages_md_def pages_dir_def content_pairs content_orders
        control_structures_and_functions_def working_with_data_def general_advice_def
        organizing_your_code_def)
  have v: "list_all valid_date (map date pages_dir)"
    by (simp add: pages_dir_def content_dates control_structures_and_functions_def
        working_with_data_def general_advice_def organizing_your_code_def
        del: valid_date.simps)
  have s: "map fst (siteMetadata module_exports) = [''title'']"
    by (simp add: module_exports_def)
  from p v s show ?thesis by blast
qed

text \<open>
  C9. Whenever the layout renders, its third and last child is \<open>children\<close> itself, after
  the header and the navigation link.
\<close>

theorem layout_children_unchanged:
  "\<exists>out. Layout rhythm (Data (Some (Site (Some (SiteMetadata t))))) children = Inr out
     \<and> tag_of out = Some ''div'' \<and> length (child_nodes out) = 3
     \<and> drop 2 (child_nodes out) = [children]"
  by (simp add: Layout_def render_present)

text \<open>
  C10. For every page body and every site title, present or null, the first child of the
  wrapper is a link to \<open>/\<close> around the \<open>h3\<close> title element, and the second is the
  \<open>About\<close> link to \<open>/about/\<close>.
\<close>

theorem layout_link_targets:
  "\<exists>out header nav rest.
     Layout rhythm (Data (Some (Site (Some (SiteMetadata t))))) children = Inr out
     \<and> child_nodes out = header # nav # rest
     \<and> map tag_of (child_nodes header) = [Some ''h3'']
     \<and> link_to header = Some ''/''
     \<and> inner_text nav = ''About'' \<and> link_to nav = Some ''/about/''"
  by (simp add: Layout_def render_present)

end
